theory Spec2Isabelle
  imports Main "HOL-Library.Word"
begin

unbundle bit_operations_syntax

section \<open>The seeded random source of \<^verbatim>\<open>src/engine/rng.cpp\<close>\<close>

text \<open>
  The file wraps four components of the C++ standard library, none of which is part of
  the repository: the engine \<^verbatim>\<open>std::mt19937\<close>, the entropy source
  \<^verbatim>\<open>std::random_device\<close> and the two distributions
  \<^verbatim>\<open>std::uniform_int_distribution<int>\<close> and
  \<^verbatim>\<open>std::uniform_real_distribution<double>\<close>. The embedding takes them as a
  parameter, a record of the five library calls that the file makes, and states what the
  C++ standard promises about them as predicates on that record. Every function of
  \<^verbatim>\<open>rng.cpp\<close> is then translated line by line over an arbitrary library.
\<close>

subsection \<open>Machine types\<close>

text \<open>
  Modelled from the spec: the type \<^verbatim>\<open>RNG::Seed\<close> is declared in
  \<^verbatim>\<open>rng.h\<close>, which is not among the sources; the spec gives the seed as an integer
  of the width of a standard 32-bit generator seed.
\<close>

type_synonym Seed = "32 word"

text \<open>
  A C++ \<^verbatim>\<open>int\<close> is a 32-bit word read in two's complement (\<open>sint\<close>, compared with
  \<open>\<le>s\<close>). A \<^verbatim>\<open>double\<close> is kept as its 64-bit pattern in the IEEE 754
  binary64 format: sign in bit 63, exponent in bits 62 to 52, fraction in bits 51 to 0.
  No floating-point arithmetic is defined on it here, only the exact value of a pattern
  and the comparisons that follow from it.
\<close>

type_synonym c_int = "32 word"
type_synonym c_double = "64 word"







subsection \<open>The standard library, as a parameter\<close>

text \<open>
  \<open>'g\<close> is the state of the engine, \<open>'r\<close> the state of the entropy source.
  \<^item> \<open>mt19937_ctor s\<close> is the engine built by \<^verbatim>\<open>std::mt19937(s)\<close>;
  \<^item> \<open>mt19937_seed s g\<close> is the engine \<open>g\<close> after \<^verbatim>\<open>g.seed(s)\<close>;
  \<^item> \<open>random_device_call r\<close> is the value of \<^verbatim>\<open>r()\<close> and the source afterwards;
  \<^item> \<open>uniform_int_distribution a b g\<close> is one draw of a distribution object built
    with bounds \<open>a\<close> and \<open>b\<close> from the engine \<open>g\<close>: the value drawn and the engine
    afterwards, or \<open>None\<close> where the call has no defined behaviour (a library built
    with assertions aborts there);
  \<^item> \<open>uniform_real_distribution\<close> is the same for doubles.
  The entropy source is taken to answer every call, as the spec assumes; a
  \<^verbatim>\<open>std::random_device\<close> that throws is not modelled.
\<close>

record ('g, 'r) stdlib =
  mt19937_ctor :: "Seed \<Rightarrow> 'g"
  mt19937_seed :: "Seed \<Rightarrow> 'g \<Rightarrow> 'g"
  random_device_call :: "'r \<Rightarrow> 32 word \<times> 'r"
  uniform_int_distribution :: "c_int \<Rightarrow> c_int \<Rightarrow> 'g \<Rightarrow> (c_int \<times> 'g) option"
  uniform_real_distribution :: "c_double \<Rightarrow> c_double \<Rightarrow> 'g \<Rightarrow> (c_double \<times> 'g) option"

subsection \<open>The object\<close>

text \<open>
  \<^verbatim>\<open>struct RNG::Implementation\<close> with its three members in the order of declaration.
  An \<^verbatim>\<open>RNG\<close> owns exactly one \<^verbatim>\<open>Implementation\<close> through \<^verbatim>\<open>m_impl\<close>
  and never shares it, so the object is its implementation.
\<close>

record ('g, 'r) Implementation =
  m_seed :: Seed
  m_rd :: 'r
  m_mt :: 'g

text \<open>
  \<^verbatim>\<open>Implementation(Seed seed) : m_seed(seed), m_mt(seed)\<close>. The argument \<open>rd\<close>
  is the default-constructed \<^verbatim>\<open>std::random_device\<close> of the new object.
\<close>

definition Implementation_seeded ::
  "('g, 'r) stdlib \<Rightarrow> Seed \<Rightarrow> 'r \<Rightarrow> ('g, 'r) Implementation" where
  "Implementation_seeded L seed rd =
     \<lparr>m_seed = seed, m_rd = rd, m_mt = mt19937_ctor L seed\<rparr>"

text \<open>
  \<^verbatim>\<open>Implementation() { m_seed = m_rd(); m_mt = std::mt19937(m_seed); }\<close>. The engine
  that the member initialisation builds first is overwritten by the assignment.
\<close>

definition Implementation_default ::
  "('g, 'r) stdlib \<Rightarrow> 'r \<Rightarrow> ('g, 'r) Implementation" where
  "Implementation_default L rd =
     (case random_device_call L rd of
        (v, rd') \<Rightarrow> \<lparr>m_seed = v, m_rd = rd', m_mt = mt19937_ctor L v\<rparr>)"

text \<open>\<^verbatim>\<open>RNG::RNG() : m_impl(new Implementation())\<close>\<close>

definition RNG_default :: "('g, 'r) stdlib \<Rightarrow> 'r \<Rightarrow> ('g, 'r) Implementation" where
  "RNG_default L rd = Implementation_default L rd"

text \<open>\<^verbatim>\<open>RNG::RNG(Seed seed) : m_impl(new Implementation(seed))\<close>\<close>

definition RNG_seeded :: "('g, 'r) stdlib \<Rightarrow> Seed \<Rightarrow> 'r \<Rightarrow> ('g, 'r) Implementation" where
  "RNG_seeded L seed rd = Implementation_seeded L seed rd"

text \<open>\<^verbatim>\<open>m_impl->m_seed = seed; m_impl->m_mt.seed(seed);\<close>\<close>

definition setSeed ::
  "('g, 'r) stdlib \<Rightarrow> Seed \<Rightarrow> ('g, 'r) Implementation \<Rightarrow> ('g, 'r) Implementation" where
  "setSeed L seed st = st\<lparr>m_seed := seed, m_mt := mt19937_seed L seed (m_mt st)\<rparr>"

text \<open>\<^verbatim>\<open>return m_impl->m_seed;\<close>\<close>

definition getSeed :: "('g, 'r) Implementation \<Rightarrow> Seed" where
  "getSeed st = m_seed st"

text \<open>\<^verbatim>\<open>return m_impl->m_rd();\<close> The call may change the entropy source.\<close>

definition generateRandomSeed ::
  "('g, 'r) stdlib \<Rightarrow> ('g, 'r) Implementation \<Rightarrow> Seed \<times> ('g, 'r) Implementation" where
  "generateRandomSeed L st =
     (case random_device_call L (m_rd st) of (v, rd') \<Rightarrow> (v, st\<lparr>m_rd := rd'\<rparr>))"

text \<open>
  \<^verbatim>\<open>std::uniform_real_distribution<double> dis(min, max); return dis(m_impl->m_mt);\<close>
  The distribution object is local to the call; only the engine outlives it.
\<close>

definition getDouble ::
  "('g, 'r) stdlib \<Rightarrow> c_double \<Rightarrow> c_double \<Rightarrow> ('g, 'r) Implementation
     \<Rightarrow> (c_double \<times> ('g, 'r) Implementation) option" where
  "getDouble L mn mx st =
     (case uniform_real_distribution L mn mx (m_mt st) of
        None \<Rightarrow> None
      | Some (v, g') \<Rightarrow> Some (v, st\<lparr>m_mt := g'\<rparr>))"

text \<open>
  \<^verbatim>\<open>std::uniform_int_distribution<int> dis(min, max); return dis(m_impl->m_mt);\<close>
  The bounds reach the library in the order and with the values the caller gave.
\<close>

definition getInt ::
  "('g, 'r) stdlib \<Rightarrow> c_int \<Rightarrow> c_int \<Rightarrow> ('g, 'r) Implementation
     \<Rightarrow> (c_int \<times> ('g, 'r) Implementation) option" where
  "getInt L mn mx st =
     (case uniform_int_distribution L mn mx (m_mt st) of
        None \<Rightarrow> None
      | Some (v, g') \<Rightarrow> Some (v, st\<lparr>m_mt := g'\<rparr>))"

text \<open>
  \<^verbatim>\<open>return m_impl->m_mt;\<close> (by reference in the source; the model reads it).
  The destructor \<^verbatim>\<open>RNG::~RNG(){}\<close> has an empty body and no counterpart here.
\<close>

definition mersenneTwister :: "('g, 'r) Implementation \<Rightarrow> 'g" where
  "mersenneTwister st = m_mt st"

subsection \<open>The scripting binding\<close>

text \<open>
  \<^verbatim>\<open>RNG::luaBindings\<close> returns a luabind class registration: the name given to
  \<^verbatim>\<open>class_<RNG>\<close> and one entry per \<^verbatim>\<open>.def\<close>. An entry binds a script name
  to a member function (\<open>Def\<close>), or would register a constructor
  (\<^verbatim>\<open>.def(constructor<...>())\<close>, \<open>Def_constructor\<close>). \<open>member\<close> lists the
  member functions of the class.
\<close>

datatype member =
    Ctor_default | Ctor_seed | Dtor | Member_luaBindings
  | Member_setSeed | Member_getSeed | Member_generateRandomSeed
  | Member_getDouble | Member_getInt | Member_mersenneTwister

datatype binding = Def string member | Def_constructor member

record class_registration =
  class_name :: string
  bindings :: "binding list"

definition luaBindings :: class_registration where
  "luaBindings =
     \<lparr>class_name = ''RNG'',
      bindings =
        [Def ''getInt'' Member_getInt,
         Def ''getReal'' Member_getDouble,
         Def ''generateRandomSeed'' Member_generateRandomSeed,
         Def ''setSeed'' Member_setSeed,
         Def ''getSeed'' Member_getSeed]\<rparr>"

text \<open>What a script can call: the names registered, and the member behind a name.\<close>

fun script_name :: "binding \<Rightarrow> string option" where
  "script_name (Def n m) = Some n"
| "script_name (Def_constructor m) = None"

fun bound_member :: "binding \<Rightarrow> member" where
  "bound_member (Def n m) = m"
| "bound_member (Def_constructor m) = m"

subsection \<open>Callers: sequences of calls on one object\<close>

text \<open>
  A sampling call with its arguments, and what it returns. \<open>sample\<close> makes one call,
  \<open>run\<close> a sequence of them on the same object, collecting the values returned;
  a call without defined behaviour ends the run (\<open>None\<close>).
\<close>

datatype call = GetInt c_int c_int | GetDouble c_double c_double

datatype sampled = IntValue c_int | DoubleValue c_double

fun sample ::
  "('g, 'r) stdlib \<Rightarrow> call \<Rightarrow> ('g, 'r) Implementation
     \<Rightarrow> (sampled \<times> ('g, 'r) Implementation) option" where
  "sample L (GetInt mn mx) st =
     (case getInt L mn mx st of
        None \<Rightarrow> None
      | Some (v, st') \<Rightarrow> Some (IntValue v, st'))"
| "sample L (GetDouble mn mx) st =
     (case getDouble L mn mx st of
        None \<Rightarrow> None
      | Some (v, st') \<Rightarrow> Some (DoubleValue v, st'))"

fun run ::
  "('g, 'r) stdlib \<Rightarrow> call list \<Rightarrow> ('g, 'r) Implementation
     \<Rightarrow> (sampled list \<times> ('g, 'r) Implementation) option" where
  "run L [] st = Some ([], st)"
| "run L (c # cs) st =
     (case sample L c st of
        None \<Rightarrow> None
      | Some (v, st') \<Rightarrow>
          (case run L cs st' of
             None \<Rightarrow> None
           | Some (vs, st'') \<Rightarrow> Some (v # vs, st'')))"

text \<open>
  Any public operation that acts on an existing object, and the object after a sequence
  of them. \<open>draws acc ops\<close> is the list of sampling calls made since the seed was last
  assigned, \<open>acc\<close> being those made before \<open>ops\<close>.
\<close>

datatype operation = SetSeed Seed | GetSeed | GenerateRandomSeed | Sample call

fun step ::
  "('g, 'r) stdlib \<Rightarrow> operation \<Rightarrow> ('g, 'r) Implementation
     \<Rightarrow> ('g, 'r) Implementation option" where
  "step L (SetSeed s) st = Some (setSeed L s st)"
| "step L GetSeed st = Some st"
| "step L GenerateRandomSeed st = Some (snd (generateRandomSeed L st))"
| "step L (Sample c) st = map_option snd (sample L c st)"

fun exec ::
  "('g, 'r) stdlib \<Rightarrow> operation list \<Rightarrow> ('g, 'r) Implementation
     \<Rightarrow> ('g, 'r) Implementation option" where
  "exec L [] st = Some st"
| "exec L (x # xs) st =
     (case step L x st of None \<Rightarrow> None | Some st' \<Rightarrow> exec L xs st')"

fun draws :: "call list \<Rightarrow> operation list \<Rightarrow> call list" where
  "draws acc [] = acc"
| "draws acc (SetSeed s # xs) = draws [] xs"
| "draws acc (Sample c # xs) = draws (acc @ [c]) xs"
| "draws acc (GetSeed # xs) = draws acc xs"
| "draws acc (GenerateRandomSeed # xs) = draws acc xs"

text \<open>
  \<open>replayed L cs st\<close> is the engine obtained by constructing a fresh engine from the
  seed stored in \<open>st\<close> and making the sampling calls \<open>cs\<close> on it.
\<close>

definition replayed ::
  "('g, 'r) stdlib \<Rightarrow> call list \<Rightarrow> ('g, 'r) Implementation \<Rightarrow> 'g option" where
  "replayed L cs st =
     map_option (\<lambda>(vs, st'). mersenneTwister st')
       (run L cs (st\<lparr>m_mt := mt19937_ctor L (getSeed st)\<rparr>))"

subsection \<open>What the C++ standard promises about the library\<close>

text \<open>
  The requirements on random number engines give \<^verbatim>\<open>e.seed(s)\<close> the postcondition
  \<^verbatim>\<open>e == E(s)\<close>: seeding an engine leaves it equal to one constructed from the seed.
\<close>

definition seed_postcondition :: "('g, 'r) stdlib \<Rightarrow> bool" where
  "seed_postcondition L = (\<forall>s g. mt19937_seed L s g = mt19937_ctor L s)"

text \<open>
  \<^verbatim>\<open>uniform_int_distribution(a, b)\<close> requires \<open>a \<le> b\<close> and then produces integers
  \<open>i\<close> with \<open>a \<le> i \<le> b\<close>. \<open>uniform_int_ensures\<close> is the guarantee within the
  requirement, \<open>uniform_int_requires\<close> says that outside it the library defines nothing.
\<close>

definition uniform_int_ensures :: "('g, 'r) stdlib \<Rightarrow> bool" where
  "uniform_int_ensures L =
     (\<forall>a b g. a \<le>s b \<longrightarrow>
        (\<exists>v g'. uniform_int_distribution L a b g = Some (v, g') \<and> a \<le>s v \<and> v \<le>s b))"

definition uniform_int_requires :: "('g, 'r) stdlib \<Rightarrow> bool" where
  "uniform_int_requires L = (\<forall>a b g. b <s a \<longrightarrow> uniform_int_distribution L a b g = None)"



subsection \<open>A small library to compute with\<close>

text \<open>
  One library that meets these promises, small enough to evaluate: its engine is a
  single 32-bit word advanced by a linear congruential step, its entropy source is the
  list of the values it will yield (then zeros), its integer distribution reduces one
  engine output to the width of the range and refuses reversed bounds, and its real
  distribution consumes two engine outputs and returns the lower bound. It stands in for
  the real library only where a theorem is applied to a concrete input.
\<close>

definition lcg_next :: "32 word \<Rightarrow> 32 word \<times> 32 word" where
  "lcg_next g = (1664525 * g + 1013904223, 1664525 * g + 1013904223)"

definition small_random_device :: "32 word list \<Rightarrow> 32 word \<times> 32 word list" where
  "small_random_device r = (case r of [] \<Rightarrow> (0, []) | v # vs \<Rightarrow> (v, vs))"

definition small_uniform_int :: "c_int \<Rightarrow> c_int \<Rightarrow> 32 word \<Rightarrow> (c_int \<times> 32 word) option" where
  "small_uniform_int a b g =
     (if b <s a then None
      else case lcg_next g of
        (r, g') \<Rightarrow> Some (if b - a + 1 = 0 then r else a + r mod (b - a + 1), g'))"

definition small_uniform_real ::
  "c_double \<Rightarrow> c_double \<Rightarrow> 32 word \<Rightarrow> (c_double \<times> 32 word) option" where
  "small_uniform_real a b g = Some (a, snd (lcg_next (snd (lcg_next g))))"

definition small_stdlib :: "(32 word, 32 word list) stdlib" where
  "small_stdlib =
     \<lparr>mt19937_ctor = (\<lambda>s. s),
      mt19937_seed = (\<lambda>s g. s),
      random_device_call = small_random_device,
      uniform_int_distribution = small_uniform_int,
      uniform_real_distribution = small_uniform_real\<rparr>"

section \<open>The small library keeps the promises\<close>

text \<open>
  Signed comparison of 32-bit words against their unsigned difference: for \<open>a \<le> b\<close>
  as signed values, \<open>b - a\<close> read unsigned is the distance between them.
\<close>

lemma uint_diff_sint:
  fixes a b :: "32 word"
  assumes "a \<le>s b"
  shows "uint (b - a) = sint b - sint a"
proof -
  have sab: "sint a \<le> sint b" using assms by (simp add: word_sle_eq)
  have ra: "- (2 ^ 31) \<le> sint a" "sint b < 2 ^ 31"
    using sint_range_size [of a] sint_range_size [of b] by (simp_all add: word_size)
  have "uint (word_of_int (sint b - sint a) :: 32 word) = sint b - sint a"
    using sab ra by (simp only: uint_word_of_int) (simp add: take_bit_int_eq_self)
  then show ?thesis by simp
qed

lemma full_range:
  fixes a b r :: "32 word"
  assumes ab: "a \<le>s b" and n0: "b - a + 1 = 0"
  shows "a \<le>s r \<and> r \<le>s b"
proof -
  have "b - a = - 1" using n0 by (simp add: add_eq_0_iff2)
  then have "uint (b - a) = 2 ^ 32 - 1" by (simp add: unsigned_minus_1_eq_mask mask_eq_exp_minus_1)
  then have d: "sint b - sint a = 2 ^ 32 - 1" using uint_diff_sint [OF ab] by simp
  have "- (2 ^ 31) \<le> sint a" "sint a < 2 ^ 31" "- (2 ^ 31) \<le> sint b" "sint b < 2 ^ 31"
       "- (2 ^ 31) \<le> sint r" "sint r < 2 ^ 31"
    using sint_range_size [of a] sint_range_size [of b] sint_range_size [of r]
    by (simp_all add: word_size)
  with d show ?thesis by (simp add: word_sle_eq)
qed

lemma offset_in_range:
  fixes a b r :: "32 word"
  assumes ab: "a \<le>s b" and n0: "b - a + 1 \<noteq> 0"
  shows "a \<le>s a + r mod (b - a + 1) \<and> a + r mod (b - a + 1) \<le>s b"
proof -
  define d where "d = b - a"
  define k where "k = r mod (d + 1)"
  have ra: "- (2 ^ 31) \<le> sint a" "sint b < 2 ^ 31"
    using sint_range_size [of a] sint_range_size [of b] by (simp_all add: word_size)
  have ud: "uint d = sint b - sint a"
    unfolding d_def using ab by (rule uint_diff_sint)
  have n0': "d + 1 \<noteq> 0" unfolding d_def by (rule n0)
  have comm: "1 + d = d + 1" by (rule add.commute)
  have "1 + d \<noteq> 0" unfolding comm by (rule n0')
  then have "unat (1 + d) = Suc (unat d)" by (rule unatSuc)
  then have "unat (d + 1) = Suc (unat d)" by (simp only: comm)
  then have un: "uint (d + 1) = uint d + 1"
    by (simp only: uint_nat)
  have "k < d + 1"
    unfolding k_def using n0' by (metis word_gt_0 word_mod_less_divisor)
  then have "uint k < uint (d + 1)" by (simp add: word_less_def)
  then have uk: "uint k \<le> sint b - sint a" using un ud by simp
  have k0: "0 \<le> uint k" by simp
  have lo: "- (2 ^ 31) \<le> sint a + uint k" using ra k0 by linarith
  have hi: "sint a + uint k < 2 ^ 31" using ra uk by linarith
  have "signed_take_bit 31 (sint a + uint k) = sint a + uint k"
    using lo hi by (rule signed_take_bit_int_eq_self)
  then have "sint (word_of_int (sint a + uint k) :: 32 word) = sint a + uint k"
    by (simp only: sint_sbintrunc') simp
  then have "sint (a + k) = sint a + uint k"
    by simp
  then show ?thesis
    using uk unfolding k_def d_def by (simp add: word_sle_eq)
qed

lemma small_uniform_int_ensures:
  assumes "a \<le>s b"
  shows "\<exists>v g'. small_uniform_int a b g = Some (v, g') \<and> a \<le>s v \<and> v \<le>s b"
proof -
  have nlt: "\<not> b <s a" using assms by (simp add: word_sle_eq word_sless_alt)
  show ?thesis
  proof (cases "b - a + 1 = 0")
    case True
    with nlt full_range [OF assms True] show ?thesis
      by (simp add: small_uniform_int_def lcg_next_def)
  next
    case False
    with nlt offset_in_range [OF assms False] show ?thesis
      by (simp add: small_uniform_int_def lcg_next_def)
  qed
qed

lemma small_stdlib_seed_postcondition: "seed_postcondition small_stdlib"
  by (simp add: seed_postcondition_def small_stdlib_def)

lemma small_stdlib_ensures: "uniform_int_ensures small_stdlib"
  unfolding uniform_int_ensures_def
  using small_uniform_int_ensures by (simp add: small_stdlib_def)

lemma small_stdlib_requires: "uniform_int_requires small_stdlib"
  by (simp add: uniform_int_requires_def small_stdlib_def small_uniform_int_def)



lemmas small_eval =
  small_stdlib_def small_uniform_int_def small_uniform_real_def small_random_device_def
  lcg_next_def RNG_seeded_def Implementation_seeded_def RNG_default_def
  Implementation_default_def setSeed_def getSeed_def generateRandomSeed_def getInt_def
  getDouble_def mersenneTwister_def word_sle_eq word_sless_alt

section \<open>Sampling reads and writes the engine only\<close>

text \<open>
  A sampling call never looks at the stored seed or at the entropy source and never
  changes them: run on an object with other values there, it returns the same values and
  the same engine.
\<close>

lemma sample_frame:
  "sample L c (st\<lparr>m_seed := s, m_rd := r\<rparr>) =
     map_option (\<lambda>(v, st'). (v, st'\<lparr>m_seed := s, m_rd := r\<rparr>)) (sample L c st)"
  by (cases c) (simp_all add: getInt_def getDouble_def split: option.splits)

lemma run_frame:
  "run L cs (st\<lparr>m_seed := s, m_rd := r\<rparr>) =
     map_option (\<lambda>(vs, st'). (vs, st'\<lparr>m_seed := s, m_rd := r\<rparr>)) (run L cs st)"
proof (induction cs arbitrary: st)
  case Nil
  show ?case by simp
next
  case (Cons c cs)
  show ?case
    by (simp add: sample_frame Cons.IH split: option.splits)
qed

lemma same_engine:
  fixes st1 st2 :: "('g, 'r) Implementation"
  assumes "m_mt st1 = m_mt st2"
  shows "st2 = st1\<lparr>m_seed := m_seed st2, m_rd := m_rd st2\<rparr>"
  using assms by simp

lemma run_same_engine:
  fixes st1 st2 :: "('g, 'r) Implementation"
  assumes "m_mt st1 = m_mt st2"
  shows "map_option fst (run L cs st1) = map_option fst (run L cs st2)"
proof -
  have "run L cs st2 = run L cs (st1\<lparr>m_seed := m_seed st2, m_rd := m_rd st2\<rparr>)"
    using same_engine [OF assms] by simp
  then show ?thesis
    by (simp add: run_frame option.map_comp comp_def split_def)
qed

lemma sample_seed:
  "sample L c st = Some (v, st') \<Longrightarrow> m_seed st' = m_seed st \<and> m_rd st' = m_rd st"
  by (cases c) (auto simp: getInt_def getDouble_def split: option.splits)

lemma run_seed:
  "run L cs st = Some (vs, st') \<Longrightarrow> m_seed st' = m_seed st \<and> m_rd st' = m_rd st"
proof (induction cs arbitrary: st vs)
  case Nil
  then show ?case by simp
next
  case (Cons c cs)
  then show ?case
    by (fastforce split: option.splits dest: sample_seed)
qed

lemma engine_frame:
  "map_option (\<lambda>(vs, st'). m_mt st') (run L cs (st\<lparr>m_seed := s, m_rd := r\<rparr>)) =
   map_option (\<lambda>(vs, st'). m_mt st') (run L cs st)"
  by (simp add: run_frame option.map_comp comp_def split_def)

lemma run_engine_only:
  fixes st1 st2 :: "('g, 'r) Implementation"
  assumes "m_mt st1 = m_mt st2"
  shows "map_option (\<lambda>(vs, st'). m_mt st') (run L cs st1) =
         map_option (\<lambda>(vs, st'). m_mt st') (run L cs st2)"
proof -
  have "run L cs st2 = run L cs (st1\<lparr>m_seed := m_seed st2, m_rd := m_rd st2\<rparr>)"
    using same_engine [OF assms] by simp
  then show ?thesis by (simp only: engine_frame)
qed

lemma run_append:
  "run L (cs @ ds) st =
     (case run L cs st of
        None \<Rightarrow> None
      | Some (vs, st') \<Rightarrow>
          (case run L ds st' of
             None \<Rightarrow> None
           | Some (ws, st'') \<Rightarrow> Some (vs @ ws, st'')))"
  by (induction cs arbitrary: st) (auto split: option.splits)

section \<open>Determinism\<close>

text \<open>
  C1. Two objects built by the seeded constructor from the same seed, whatever their
  entropy sources, return the same values for the same sequence of \<open>getInt\<close> and
  \<open>getDouble\<close> calls with the same arguments (with the same library, and including the
  case where the sequence runs into a call without defined behaviour in both).
\<close>

theorem seeded_determinism:
  "map_option fst (run L cs (RNG_seeded L s rd1)) = map_option fst (run L cs (RNG_seeded L s rd2))"
  by (rule run_same_engine) (simp add: RNG_seeded_def Implementation_seeded_def)

theorem seeded_determinism_witness:
  "map_option fst
     (run small_stdlib [GetInt 1 6, GetDouble 0 4607182418800017408, GetInt 1 6, GetInt (- 5) 5]
        (RNG_seeded small_stdlib 42 [7, 9])) =
   Some [IntValue 2, DoubleValue 0, IntValue 1, IntValue 2] \<and>
   map_option fst
     (run small_stdlib [GetInt 1 6, GetDouble 0 4607182418800017408, GetInt 1 6, GetInt (- 5) 5]
        (RNG_seeded small_stdlib 42 [])) =
   Some [IntValue 2, DoubleValue 0, IntValue 1, IntValue 2]"
  using seeded_determinism [of small_stdlib
      "[GetInt 1 6, GetDouble 0 4607182418800017408, GetInt 1 6, GetInt (- 5) 5]" 42 "[7, 9]" "[]"]
  by (simp add: small_eval)

text \<open>
  C2. Given the library's postcondition of \<^verbatim>\<open>seed\<close>, \<open>setSeed s\<close> on any
  existing object leaves the engine and the stored seed as the seeded constructor with
  \<open>s\<close> makes them, and every sampling sequence then returns the values it returns on
  a freshly constructed object.
\<close>

theorem setSeed_resets:
  assumes "seed_postcondition L"
  shows "mersenneTwister (setSeed L s st) = mersenneTwister (RNG_seeded L s rd) \<and>
         getSeed (setSeed L s st) = getSeed (RNG_seeded L s rd) \<and>
         map_option fst (run L cs (setSeed L s st)) = map_option fst (run L cs (RNG_seeded L s rd))"
proof -
  have eng: "m_mt (setSeed L s st) = m_mt (RNG_seeded L s rd)"
    using assms by (simp add: seed_postcondition_def setSeed_def RNG_seeded_def Implementation_seeded_def)
  have "getSeed (setSeed L s st) = getSeed (RNG_seeded L s rd)"
    by (simp add: getSeed_def setSeed_def RNG_seeded_def Implementation_seeded_def)
  with eng run_same_engine [OF eng] show ?thesis
    by (simp add: mersenneTwister_def)
qed

theorem setSeed_resets_witness:
  "seed_postcondition small_stdlib \<and>
   mersenneTwister (setSeed small_stdlib 42 \<lparr>m_seed = 7, m_rd = [9], m_mt = 1083814273\<rparr>) = 42 \<and>
   getSeed (setSeed small_stdlib 42 \<lparr>m_seed = 7, m_rd = [9], m_mt = 1083814273\<rparr>) = 42 \<and>
   map_option fst
     (run small_stdlib [GetInt 1 6, GetInt 1 6, GetDouble 0 4607182418800017408]
        (setSeed small_stdlib 42 \<lparr>m_seed = 7, m_rd = [9], m_mt = 1083814273\<rparr>)) =
   map_option fst
     (run small_stdlib [GetInt 1 6, GetInt 1 6, GetDouble 0 4607182418800017408]
        (RNG_seeded small_stdlib 42 []))"
  using setSeed_resets [OF small_stdlib_seed_postcondition,
      where s = 42 and st = "\<lparr>m_seed = 7, m_rd = [9], m_mt = 1083814273\<rparr>" and rd = "[]"
        and cs = "[GetInt 1 6, GetInt 1 6, GetDouble 0 4607182418800017408]"]
    small_stdlib_seed_postcondition
  by (simp add: small_eval)

section \<open>Seed management\<close>

text \<open>
  C3. \<open>getSeed\<close> right after the seeded constructor returns the constructor's argument,
  and \<open>getSeed\<close> after \<open>setSeed s2\<close>, on any object, returns \<open>s2\<close>.
\<close>

theorem getSeed_returns_last_seed:
  "getSeed (RNG_seeded L s rd) = s \<and> getSeed (setSeed L s2 st) = s2"
  by (simp add: getSeed_def RNG_seeded_def Implementation_seeded_def setSeed_def)

text \<open>
  The default constructor stores the value it draws from the entropy source as the seed
  and builds the engine from that value; the entropy source moves on by one call.
\<close>

theorem RNG_default_seeds_from_entropy:
  "getSeed (RNG_default L rd) = fst (random_device_call L rd) \<and>
   mersenneTwister (RNG_default L rd) = mt19937_ctor L (fst (random_device_call L rd)) \<and>
   m_rd (RNG_default L rd) = snd (random_device_call L rd)"
  by (simp add: getSeed_def mersenneTwister_def RNG_default_def Implementation_default_def
      split: prod.splits)

text \<open>
  \<open>generateRandomSeed\<close> returns the value of one call of the entropy source and
  leaves the source as that call left it.
\<close>

theorem generateRandomSeed_draws_entropy:
  "fst (generateRandomSeed L st) = fst (random_device_call L (m_rd st)) \<and>
   m_rd (snd (generateRandomSeed L st)) = snd (random_device_call L (m_rd st))"
  by (simp add: generateRandomSeed_def split: prod.splits)

text \<open>
  C6. \<open>generateRandomSeed\<close> leaves the stored seed and the engine as they were, so
  \<open>getSeed\<close> and every later sampling sequence return what they would have returned
  without the call. Only the entropy source moves on.
\<close>

theorem generateRandomSeed_frame:
  "getSeed (snd (generateRandomSeed L st)) = getSeed st \<and>
   mersenneTwister (snd (generateRandomSeed L st)) = mersenneTwister st \<and>
   map_option fst (run L cs (snd (generateRandomSeed L st))) = map_option fst (run L cs st)"
proof -
  have eng: "m_mt (snd (generateRandomSeed L st)) = m_mt st"
    by (simp add: generateRandomSeed_def split: prod.splits)
  have "m_seed (snd (generateRandomSeed L st)) = m_seed st"
    by (simp add: generateRandomSeed_def split: prod.splits)
  with eng run_same_engine [OF eng] show ?thesis
    by (simp add: getSeed_def mersenneTwister_def)
qed

theorem generateRandomSeed_frame_witness:
  "generateRandomSeed small_stdlib \<lparr>m_seed = 42, m_rd = [7, 9], m_mt = 1083814273\<rparr> =
     (7, \<lparr>m_seed = 42, m_rd = [9], m_mt = 1083814273\<rparr>) \<and>
   getSeed (snd (generateRandomSeed small_stdlib \<lparr>m_seed = 42, m_rd = [7, 9], m_mt = 1083814273\<rparr>)) = 42 \<and>
   map_option fst
     (run small_stdlib [GetInt 1 6, GetDouble 0 4607182418800017408]
        (snd (generateRandomSeed small_stdlib \<lparr>m_seed = 42, m_rd = [7, 9], m_mt = 1083814273\<rparr>))) =
   map_option fst
     (run small_stdlib [GetInt 1 6, GetDouble 0 4607182418800017408]
        \<lparr>m_seed = 42, m_rd = [7, 9], m_mt = 1083814273\<rparr>)"
  using generateRandomSeed_frame [where L = small_stdlib
        and st = "\<lparr>m_seed = 42, m_rd = [7, 9], m_mt = 1083814273\<rparr>"
        and cs = "[GetInt 1 6, GetDouble 0 4607182418800017408]"]
  by (simp add: small_eval)

text \<open>
  C10. A \<open>getInt\<close> call, a \<open>getDouble\<close> call and any sequence of them that returns
  leave the stored seed unchanged, while the engine advances.
\<close>

theorem sampling_keeps_seed:
  "(getInt L mn mx st = Some (i, st1) \<longrightarrow> getSeed st1 = getSeed st) \<and>
   (getDouble L dmn dmx st = Some (d, st2) \<longrightarrow> getSeed st2 = getSeed st) \<and>
   (run L cs st = Some (vs, st3) \<longrightarrow> getSeed st3 = getSeed st)"
  by (auto simp: getSeed_def getInt_def getDouble_def split: option.splits dest: run_seed)

theorem sampling_keeps_seed_witness:
  "getInt small_stdlib 1 6 (RNG_seeded small_stdlib 42 []) =
     Some (2, \<lparr>m_seed = 42, m_rd = [], m_mt = 1083814273\<rparr>) \<and>
   getDouble small_stdlib 0 4607182418800017408 (RNG_seeded small_stdlib 42 []) =
     Some (0, \<lparr>m_seed = 42, m_rd = [], m_mt = 378494188\<rparr>) \<and>
   run small_stdlib [GetInt 1 6, GetInt 1 6, GetInt 1 6, GetInt 1 6, GetInt 1 6]
       (RNG_seeded small_stdlib 42 []) =
     Some ([IntValue 2, IntValue 5, IntValue 6, IntValue 1, IntValue 4],
           \<lparr>m_seed = 42, m_rd = [], m_mt = 1613448261\<rparr>) \<and>
   getSeed \<lparr>m_seed = 42, m_rd = [] :: 32 word list, m_mt = 1613448261 :: 32 word\<rparr> =
     getSeed (RNG_seeded small_stdlib 42 [])"
proof -
  have r: "run small_stdlib [GetInt 1 6, GetInt 1 6, GetInt 1 6, GetInt 1 6, GetInt 1 6]
       (RNG_seeded small_stdlib 42 []) =
     Some ([IntValue 2, IntValue 5, IntValue 6, IntValue 1, IntValue 4],
           \<lparr>m_seed = 42, m_rd = [], m_mt = 1613448261\<rparr>)"
    by (simp add: small_eval)
  have i: "getInt small_stdlib 1 6 (RNG_seeded small_stdlib 42 []) =
     Some (2, \<lparr>m_seed = 42, m_rd = [], m_mt = 1083814273\<rparr>)"
    by (simp add: small_eval)
  have d: "getDouble small_stdlib 0 4607182418800017408 (RNG_seeded small_stdlib 42 []) =
     Some (0, \<lparr>m_seed = 42, m_rd = [], m_mt = 378494188\<rparr>)"
    by (simp add: small_eval)
  have s: "getSeed (RNG_seeded small_stdlib 42 ([] :: 32 word list)) = 42"
    by (simp add: small_eval)
  from sampling_keeps_seed [where L = small_stdlib and st = "RNG_seeded small_stdlib 42 []"
      and mn = 1 and mx = 6 and i = 2 and ?st1.0 = "\<lparr>m_seed = 42, m_rd = [], m_mt = 1083814273\<rparr>"
      and dmn = 0 and dmx = 4607182418800017408 and d = 0
      and ?st2.0 = "\<lparr>m_seed = 42, m_rd = [], m_mt = 378494188\<rparr>"
      and cs = "[GetInt 1 6, GetInt 1 6, GetInt 1 6, GetInt 1 6, GetInt 1 6]"
      and vs = "[IntValue 2, IntValue 5, IntValue 6, IntValue 1, IntValue 4]"
      and ?st3.0 = "\<lparr>m_seed = 42, m_rd = [], m_mt = 1613448261\<rparr>"] r i d s
  show ?thesis by simp
qed

section \<open>Bounds of \<open>getInt\<close>\<close>

text \<open>
  C4. With a library whose integer distribution keeps the standard's guarantee, a call
  \<open>getInt min max\<close> with \<open>min \<le> max\<close> returns, in every state, a value \<open>v\<close>
  with \<open>min \<le> v \<le> max\<close>: the bounds are passed in this order and the value drawn is
  returned as it is.
\<close>

theorem getInt_within_bounds:
  assumes "uniform_int_ensures L" and "mn \<le>s mx"
  shows "\<exists>v st'. getInt L mn mx st = Some (v, st') \<and> mn \<le>s v \<and> v \<le>s mx"
proof -
  from assms obtain v g' where
    "uniform_int_distribution L mn mx (m_mt st) = Some (v, g')" "mn \<le>s v" "v \<le>s mx"
    unfolding uniform_int_ensures_def by blast
  then show ?thesis by (simp add: getInt_def)
qed

theorem getInt_within_bounds_witness:
  "uniform_int_ensures small_stdlib \<and> (1 :: c_int) \<le>s 6 \<and>
   getInt small_stdlib 1 6 (RNG_seeded small_stdlib 42 []) =
     Some (2, \<lparr>m_seed = 42, m_rd = [], m_mt = 1083814273\<rparr>) \<and>
   (1 :: c_int) \<le>s 2 \<and> (2 :: c_int) \<le>s 6"
  using getInt_within_bounds [OF small_stdlib_ensures, of 1 6 "RNG_seeded small_stdlib 42 []"]
    small_stdlib_ensures
  by (simp add: small_eval)

text \<open>
  C5 asks that \<open>getInt min max\<close> with \<open>min > max\<close> swaps the bounds or signals an
  error. The function does neither: with a library that keeps the standard's guarantee
  for \<open>a \<le> b\<close>, the call \<open>getInt 6 1\<close> returns no value between 1 and 6.
\<close>

theorem getInt_reversed_bounds_counterexample:
  "uniform_int_ensures small_stdlib \<and>
   \<not> (\<exists>v st'. getInt small_stdlib 6 1 (RNG_seeded small_stdlib 42 []) = Some (v, st') \<and>
         1 \<le>s v \<and> v \<le>s 6)"
  using small_stdlib_ensures by (simp add: small_eval)

text \<open>
  C5, as the code has it. \<open>getInt\<close> hands reversed bounds to the library unchanged,
  outside the requirement \<open>a \<le> b\<close> of the distribution: where the library defines
  nothing there, the call has no defined result.
\<close>

theorem getInt_reversed_bounds:
  assumes "uniform_int_requires L" and "mx <s mn"
  shows "getInt L mn mx st = None"
  using assms by (simp add: uniform_int_requires_def getInt_def)

theorem getInt_reversed_bounds_witness:
  "uniform_int_requires small_stdlib \<and> (1 :: c_int) <s 6 \<and>
   getInt small_stdlib 6 1 (RNG_seeded small_stdlib 42 []) = None"
  using getInt_reversed_bounds [OF small_stdlib_requires, of 1 6 "RNG_seeded small_stdlib 42 []"]
    small_stdlib_requires
  by (simp add: word_sless_alt)

section \<open>Bounds of \<open>getDouble\<close>\<close>




section \<open>The engine follows the stored seed\<close>

text \<open>
  After a sampling call on an engine that replays to the current one, the longer replay
  gives the new engine; and the same along any sequence of operations.
\<close>

lemma replayed_step:
  assumes inv: "replayed L acc st = Some (m_mt st)"
    and smp: "sample L c st = Some (v, st')"
  shows "replayed L (acc @ [c]) st' = Some (m_mt st')"
proof -
  let ?fresh = "st\<lparr>m_mt := mt19937_ctor L (getSeed st)\<rparr>"
  have same: "m_seed st' = m_seed st" "m_rd st' = m_rd st"
    using sample_seed [OF smp] by simp_all
  then have fresh: "st'\<lparr>m_mt := mt19937_ctor L (getSeed st')\<rparr> = ?fresh"
    by (simp add: getSeed_def)
  from inv obtain vs x where x: "run L acc ?fresh = Some (vs, x)" "m_mt x = m_mt st"
    by (auto simp: replayed_def mersenneTwister_def)
  have "map_option (\<lambda>(vs, st'). m_mt st') (run L [c] x) =
        map_option (\<lambda>(vs, st'). m_mt st') (run L [c] st)"
    using x(2) by (rule run_engine_only)
  then obtain w y where y: "sample L c x = Some (w, y)" "m_mt y = m_mt st'"
    using smp by (auto split: option.splits)
  show ?thesis
    using x(1) y by (simp add: replayed_def fresh run_append mersenneTwister_def)
qed

lemma exec_replayed:
  assumes post: "seed_postcondition L"
    and inv: "replayed L acc st0 = Some (m_mt st0)"
    and ex: "exec L ops st0 = Some st"
  shows "replayed L (draws acc ops) st = Some (m_mt st)"
  using inv ex
proof (induction ops arbitrary: acc st0)
  case Nil
  then show ?case by simp
next
  case (Cons x xs)
  from Cons.prems(2) obtain st1 where
    st1: "step L x st0 = Some st1" and rest: "exec L xs st1 = Some st"
    by (auto split: option.splits)
  show ?case
  proof (cases x)
    case (SetSeed s)
    have "replayed L [] st1 = Some (m_mt st1)"
      using st1 post
      by (auto simp: SetSeed setSeed_def replayed_def getSeed_def mersenneTwister_def
          seed_postcondition_def)
    from Cons.IH [OF this rest] show ?thesis by (simp add: SetSeed)
  next
    case GetSeed
    with st1 Cons.prems(1) have "replayed L acc st1 = Some (m_mt st1)" by simp
    from Cons.IH [OF this rest] show ?thesis by (simp add: GetSeed)
  next
    case GenerateRandomSeed
    obtain v rd' where rd: "random_device_call L (m_rd st0) = (v, rd')"
      by (cases "random_device_call L (m_rd st0)")
    have eq: "st1 = st0\<lparr>m_rd := rd'\<rparr>"
      using st1 rd by (simp add: GenerateRandomSeed generateRandomSeed_def)
    have "map_option (\<lambda>(vs, st'). m_mt st')
            (run L acc (st1\<lparr>m_mt := mt19937_ctor L (getSeed st1)\<rparr>)) =
          map_option (\<lambda>(vs, st'). m_mt st')
            (run L acc (st0\<lparr>m_mt := mt19937_ctor L (getSeed st0)\<rparr>))"
      by (rule run_engine_only) (simp add: eq getSeed_def)
    with Cons.prems(1) have "replayed L acc st1 = Some (m_mt st1)"
      by (simp add: replayed_def mersenneTwister_def eq)
    from Cons.IH [OF this rest] show ?thesis by (simp add: GenerateRandomSeed)
  next
    case (Sample c)
    from st1 obtain v where "sample L c st0 = Some (v, st1)"
      by (auto simp: Sample)
    from replayed_step [OF Cons.prems(1) this]
    have "replayed L (acc @ [c]) st1 = Some (m_mt st1)" .
    from Cons.IH [OF this rest] show ?thesis by (simp add: Sample)
  qed
qed

text \<open>
  C7. Given the library's postcondition of \<^verbatim>\<open>seed\<close>: each of the two constructors
  and \<open>setSeed\<close> leaves the engine equal to a fresh engine constructed from the stored
  seed; and in every state reached from a constructor by \<open>setSeed\<close>, \<open>getSeed\<close>,
  \<open>generateRandomSeed\<close> and sampling calls, the engine is the one obtained from a fresh
  engine constructed from the stored seed by the sampling calls made since the seed was
  last assigned. The reference that \<open>mersenneTwister\<close> hands out is not among these
  operations: what a caller does to the engine through it is outside this file.
\<close>

theorem generator_follows_seed:
  assumes post: "seed_postcondition L"
    and start: "st0 = RNG_seeded L s rd \<or> st0 = RNG_default L rd"
    and ex: "exec L ops st0 = Some st"
  shows "mersenneTwister st0 = mt19937_ctor L (getSeed st0) \<and>
         mersenneTwister (setSeed L s2 st) = mt19937_ctor L (getSeed (setSeed L s2 st)) \<and>
         replayed L (draws [] ops) st = Some (mersenneTwister st)"
proof -
  have fresh: "m_mt st0 = mt19937_ctor L (m_seed st0)"
    using start
    by (auto simp: RNG_seeded_def Implementation_seeded_def RNG_default_def
        Implementation_default_def split: prod.splits)
  then have "replayed L [] st0 = Some (m_mt st0)"
    by (simp add: replayed_def getSeed_def mersenneTwister_def)
  from exec_replayed [OF post this ex]
  have "replayed L (draws [] ops) st = Some (m_mt st)" .
  moreover have "m_mt (setSeed L s2 st) = mt19937_ctor L (m_seed (setSeed L s2 st))"
    using post by (simp add: setSeed_def seed_postcondition_def)
  ultimately show ?thesis
    using fresh by (simp add: mersenneTwister_def getSeed_def)
qed

theorem generator_follows_seed_witness:
  "seed_postcondition small_stdlib \<and>
   exec small_stdlib
     [Sample (GetInt 1 6), SetSeed 5, GenerateRandomSeed, Sample (GetInt 1 6), GetSeed,
      Sample (GetDouble 0 4607182418800017408)]
     (RNG_default small_stdlib [7, 9]) =
     Some \<lparr>m_seed = 5, m_rd = [], m_mt = 1043999698\<rparr> \<and>
   mersenneTwister (RNG_default small_stdlib [7, 9]) =
     mt19937_ctor small_stdlib (getSeed (RNG_default small_stdlib [7, 9])) \<and>
   mersenneTwister (setSeed small_stdlib 11 \<lparr>m_seed = 5, m_rd = [], m_mt = 1043999698\<rparr>) =
     mt19937_ctor small_stdlib 11 \<and>
   replayed small_stdlib [GetInt 1 6, GetDouble 0 4607182418800017408]
     \<lparr>m_seed = 5, m_rd = [], m_mt = 1043999698\<rparr> = Some 1043999698"
proof -
  have ex: "exec small_stdlib
     [Sample (GetInt 1 6), SetSeed 5, GenerateRandomSeed, Sample (GetInt 1 6), GetSeed,
      Sample (GetDouble 0 4607182418800017408)]
     (RNG_default small_stdlib [7, 9]) =
     Some \<lparr>m_seed = 5, m_rd = [], m_mt = 1043999698\<rparr>"
    by (simp add: small_eval)
  have start: "RNG_default small_stdlib [7, 9] = RNG_seeded small_stdlib 0 [7, 9] \<or>
      RNG_default small_stdlib [7, 9] = RNG_default small_stdlib [7, 9]"
    by simp
  from generator_follows_seed [OF small_stdlib_seed_postcondition start ex, where ?s2.0 = 11]
    small_stdlib_seed_postcondition ex
  show ?thesis by (simp add: getSeed_def mersenneTwister_def setSeed_def)
qed

section \<open>The scripting binding\<close>

text \<open>
  C9. The registration is made under the class name \<open>RNG\<close> and has exactly five
  entries: \<open>getInt\<close> bound to \<open>getInt\<close>, \<open>getReal\<close> bound to \<open>getDouble\<close>,
  \<open>generateRandomSeed\<close>, \<open>setSeed\<close> and \<open>getSeed\<close>. No entry registers a
  constructor or \<open>mersenneTwister\<close>.
\<close>

theorem luaBindings_exposes_five:
  "class_name luaBindings = ''RNG'' \<and>
   length (bindings luaBindings) = 5 \<and>
   map script_name (bindings luaBindings) =
     [Some ''getInt'', Some ''getReal'', Some ''generateRandomSeed'', Some ''setSeed'', Some ''getSeed''] \<and>
   map bound_member (bindings luaBindings) =
     [Member_getInt, Member_getDouble, Member_generateRandomSeed, Member_setSeed, Member_getSeed] \<and>
   Ctor_default \<notin> bound_member ` set (bindings luaBindings) \<and>
   Ctor_seed \<notin> bound_member ` set (bindings luaBindings) \<and>
   Member_mersenneTwister \<notin> bound_member ` set (bindings luaBindings)"
  by (simp add: luaBindings_def)

end
